theory Spec2Isabelle
  imports Main "HOL-Library.Char_ord" "HOL-Library.List_Lexorder"
begin

section \<open>JavaScript values\<close>

text \<open>
  The values that flow through the crypto engine and the secure client are JSON data:
  request payloads, JWK exports of keys, the metadata record. An object is the list of its
  own enumerable properties in enumeration order; a well-formed object has distinct keys.
  Numbers are the integer-valued ones (below 10^21, where JavaScript prints them without an
  exponent); strings are byte strings, so \<open>TextEncoder.encode\<close> is the identity on them.
\<close>

datatype json =
    JNull
  | JBool bool
  | JNum int
  | JStr string
  | JArr "json list"
  | JObj "(string \<times> json) list"

datatype js_error = Error string | DOMException string | TypeError string | SyntaxError string

text \<open>
  The state of a promise once the event loop has run dry: fulfilled, rejected, or never
  settled (an executor that calls neither \<open>resolve\<close> nor \<open>reject\<close>).
\<close>

datatype 'a promise = Fulfilled 'a | Rejected js_error | Pending

text \<open>\<open>if (v)\<close>, \<open>!!v\<close>, \<open>a || b\<close>, \<open>a && b\<close>.\<close>

fun truthy :: "json \<Rightarrow> bool" where
  "truthy JNull = False"
| "truthy (JBool b) = b"
| "truthy (JNum n) = (n \<noteq> 0)"
| "truthy (JStr s) = (s \<noteq> [])"
| "truthy (JArr xs) = True"
| "truthy (JObj kvs) = True"

text \<open>Property read \<open>v.name\<close>: \<open>None\<close> is \<open>undefined\<close>; reading from \<open>null\<close> throws.\<close>

fun get_prop :: "json \<Rightarrow> string \<Rightarrow> js_error + json option" where
  "get_prop JNull name = Inl (TypeError ''Cannot read properties of null'')"
| "get_prop (JObj kvs) name = Inr (map_of kvs name)"
| "get_prop v name = Inr None"

text \<open>The digit of a value below the radix (at most 16).\<close>

definition digit_char :: "nat \<Rightarrow> char" where
  "digit_char n = ''0123456789abcdef'' ! n"

fun decimal :: "nat \<Rightarrow> string" where
  "decimal n = (if n < 10 then [digit_char n] else decimal (n div 10) @ [digit_char (n mod 10)])"

declare decimal.simps [simp del]

definition Number_toString :: "int \<Rightarrow> string" where
  "Number_toString n = (if n < 0 then ''-'' @ decimal (nat (- n)) else decimal (nat n))"

text \<open>\<open>b.toString(16).padStart(2, '0')\<close> for a byte \<open>b\<close>.\<close>

definition hex2 :: "nat \<Rightarrow> string" where
  "hex2 b = [digit_char (b div 16), digit_char (b mod 16)]"

text \<open>\<open>Array.prototype.join\<close> on strings.\<close>

fun join :: "string \<Rightarrow> string list \<Rightarrow> string" where
  "join sep [] = []"
| "join sep [x] = x"
| "join sep (x # y # ys) = x @ sep @ join sep (y # ys)"

text \<open>\<open>String(v)\<close>, as a template literal and \<open>new Error(v)\<close> apply it.\<close>

fun ToString :: "json \<Rightarrow> string" where
  "ToString JNull = ''null''"
| "ToString (JBool b) = (if b then ''true'' else ''false'')"
| "ToString (JNum n) = Number_toString n"
| "ToString (JStr s) = s"
| "ToString (JArr xs) =
     join '','' (map (\<lambda>x. case x of JNull \<Rightarrow> [] | _ \<Rightarrow> ToString x) xs)"
| "ToString (JObj kvs) = ''[object Object]''"

text \<open>\<open>s.includes(t)\<close>: \<open>t\<close> occurs in \<open>s\<close> as a contiguous substring.\<close>

fun startsWith :: "string \<Rightarrow> string \<Rightarrow> bool" where
  "startsWith s [] = True"
| "startsWith [] (c # t) = False"
| "startsWith (d # s) (c # t) = (d = c \<and> startsWith s t)"

fun String_includes :: "string \<Rightarrow> string \<Rightarrow> bool" where
  "String_includes [] t = (t = [])"
| "String_includes (c # s) t = (startsWith (c # s) t \<or> String_includes s t)"

section \<open>JSON.stringify\<close>

text \<open>
  ECMA-262, QuoteJSONString: the two-character escapes, \<open>\u00XX\<close> for the other control
  characters, every other character as it is.
\<close>

definition backslash :: char where
  "backslash = CHR 0x5C"

fun QuoteJSONChar :: "char \<Rightarrow> string" where
  "QuoteJSONChar c =
     (if c = CHR 0x08 then [backslash, CHR ''b'']
      else if c = CHR 0x09 then [backslash, CHR ''t'']
      else if c = CHR 0x0A then [backslash, CHR ''n'']
      else if c = CHR 0x0C then [backslash, CHR ''f'']
      else if c = CHR 0x0D then [backslash, CHR ''r'']
      else if c = CHR 0x22 then [backslash, CHR 0x22]
      else if c = backslash then [backslash, backslash]
      else if (of_char c :: nat) < 32 then [backslash, CHR ''u'', CHR ''0'', CHR ''0''] @ hex2 (of_char c)
      else [c])"

definition QuoteJSONString :: "string \<Rightarrow> string" where
  "QuoteJSONString s = [CHR 0x22] @ concat (map QuoteJSONChar s) @ [CHR 0x22]"

text \<open>
  The replacer argument of \<open>JSON.stringify\<close> when it is an array: the PropertyList, its
  strings in order, each kept at its first occurrence.
\<close>

fun PropertyList :: "string list \<Rightarrow> string list" where
  "PropertyList [] = []"
| "PropertyList (k # ks) = k # PropertyList (filter (\<lambda>x. x \<noteq> k) ks)"

text \<open>
  SerializeJSONProperty with an empty gap. \<open>K = None\<close>: no replacer, every own property
  of an object is written, in enumeration order. \<open>K = Some ks\<close>: the replacer was an
  array; then for EVERY object, at every depth, the properties written are the names of
  \<open>ks\<close> that the object has, in the order of \<open>ks\<close> (SerializeJSONObject, step "if
  state.[[PropertyList]] is not undefined, let K be state.[[PropertyList]]"). Array
  elements are not filtered. Serializing each member and then looking the name up is the
  same as looking the name up and serializing the value found.
\<close>

fun SerializeJSONProperty :: "string list option \<Rightarrow> json \<Rightarrow> string" where
  "SerializeJSONProperty K JNull = ''null''"
| "SerializeJSONProperty K (JBool b) = (if b then ''true'' else ''false'')"
| "SerializeJSONProperty K (JNum n) = Number_toString n"
| "SerializeJSONProperty K (JStr s) = QuoteJSONString s"
| "SerializeJSONProperty K (JArr xs) =
     ''['' @ join '','' (map (SerializeJSONProperty K) xs) @ '']''"
| "SerializeJSONProperty K (JObj kvs) =
     (let members = map (\<lambda>(k, v). (k, SerializeJSONProperty K v)) kvs;
          partial =
            (case K of
               None \<Rightarrow> map (\<lambda>(k, strP). QuoteJSONString k @ '':'' @ strP) members
             | Some ks \<Rightarrow>
                 concat (map (\<lambda>P. case map_of members P of
                                      None \<Rightarrow> []
                                    | Some strP \<Rightarrow> [QuoteJSONString P @ '':'' @ strP]) ks))
      in ''{'' @ join '','' partial @ ''}'')"

definition JSON_stringify :: "json \<Rightarrow> string list option \<Rightarrow> string" where
  "JSON_stringify v replacer = SerializeJSONProperty (map_option PropertyList replacer) v"

text \<open>
  \<open>Object.keys(v)\<close>: the keys of an object, the indices of an array or a string, nothing
  for a number or a boolean; \<open>null\<close> throws a TypeError.
\<close>

fun Object_keys :: "json \<Rightarrow> js_error + string list" where
  "Object_keys JNull = Inl (TypeError ''Cannot convert undefined or null to object'')"
| "Object_keys (JBool b) = Inr []"
| "Object_keys (JNum n) = Inr []"
| "Object_keys (JStr s) = Inr (map decimal [0..<length s])"
| "Object_keys (JArr xs) = Inr (map decimal [0..<length xs])"
| "Object_keys (JObj kvs) = Inr (map fst kvs)"

text \<open>
  The expression both \<open>signData\<close> and \<open>generateFingerprint\<close> hash:
  \<open>JSON.stringify(data, Object.keys(data).sort())\<close>. \<open>sort()\<close> without a comparator
  orders strings by their code units.
\<close>

definition stringify_sorted_keys :: "json \<Rightarrow> js_error + string" where
  "stringify_sorted_keys data =
     (case Object_keys data of
        Inl e \<Rightarrow> Inl e
      | Inr ks \<Rightarrow> Inr (JSON_stringify data (Some (sort ks))))"

section \<open>The platform and the state\<close>

text \<open>
  A key handle (\<open>CryptoKey\<close>) is identified with its JWK material; \<open>exportKey("jwk", k)\<close>
  of an extractable key returns it.
\<close>

type_synonym CryptoKey = json

record keyPair =
  privateKey :: CryptoKey
  publicKey :: CryptoKey

definition exportKey_jwk :: "CryptoKey \<Rightarrow> json" where
  "exportKey_jwk k = k"

record request =
  req_url :: string
  req_method :: string
  req_headers :: "(string \<times> string) list"
  req_body :: "string option"

record response =
  res_ok :: bool
  res_status :: nat
  res_statusText :: string
  res_content_type :: "string option"
  res_json :: "json option"
  res_text :: string

text \<open>
  What the browser and the server answer. The state carries a counter \<open>tick\<close> of the
  platform calls made so far, and every answer that can differ from one call to the next
  (a storage fault, a key or nonce drawn, the clock, the server) is a function of it.
  \<open>res_json\<close> is what \<open>response.json()\<close> parses (\<open>None\<close>: it throws), \<open>server\<close>
  returning \<open>None\<close> is a network failure, \<open>subtle_digest\<close>, \<open>subtle_sign\<close> and
  \<open>subtle_encrypt\<close> returning \<open>None\<close> is the primitive throwing.
  \<open>settles_in_task\<close> is the platform's timing of a promise that the code awaits:
  whether it settles before the task that awaits it has ended.
\<close>

record platform =
  indexedDB_open :: "nat \<Rightarrow> bool"
  request_succeeds :: "nat \<Rightarrow> bool"
  commit_succeeds :: "nat \<Rightarrow> bool"
  settles_in_task :: "nat \<Rightarrow> bool"
  idb_error_message :: string
  generateKey_ECDSA :: "nat \<Rightarrow> keyPair option"
  generateKey_AES :: "nat \<Rightarrow> CryptoKey option"
  getRandomValues :: "nat \<Rightarrow> string"
  importKey_succeeds :: "json \<Rightarrow> bool"
  subtle_sign :: "nat \<Rightarrow> CryptoKey \<Rightarrow> string \<Rightarrow> string option"
  subtle_digest :: "string \<Rightarrow> string option"
  subtle_encrypt :: "CryptoKey \<Rightarrow> string \<Rightarrow> string \<Rightarrow> string option"
  btoa :: "string \<Rightarrow> string"
  Date_toISOString :: "nat \<Rightarrow> string"
  Date_now :: "nat \<Rightarrow> nat"
  Math_random_base36 :: "nat \<Rightarrow> string"
  server :: "nat \<Rightarrow> request \<Rightarrow> response option"
  VITE_API_URL :: "string option"
  VITE_MIDDLEWARE_URL :: "string option"

text \<open>
  \<open>idb\<close>: the committed content of the object store \<open>keys\<close>. \<open>engine_db\<close>: the engine
  holds an open database handle (\<open>this.db\<close>). \<open>sent\<close>: the requests handed to the
  network, oldest first. \<open>keygens\<close>: the calls of \<open>subtle.generateKey\<close> for an ECDSA
  pair.
\<close>

record world =
  idb :: "string \<rightharpoonup> json"
  engine_db :: bool
  isInitialized :: bool
  localStorage :: "string \<rightharpoonup> string"
  sessionStorage :: "string \<rightharpoonup> string"
  tick :: nat
  sent :: "request list"
  keygens :: nat

definition advance :: "world \<Rightarrow> world" where
  "advance w = w\<lparr>tick := tick w + 1\<rparr>"

definition message :: "js_error \<Rightarrow> string" where
  "message e =
     (case e of Error m \<Rightarrow> m | DOMException m \<Rightarrow> m | TypeError m \<Rightarrow> m | SyntaxError m \<Rightarrow> m)"

text \<open>\<open>await p\<close> followed by the rest of an async function; \<open>try { p } catch (error) { h }\<close>.\<close>

definition await :: "'a promise \<times> world \<Rightarrow> ('a \<Rightarrow> world \<Rightarrow> 'b promise \<times> world) \<Rightarrow> 'b promise \<times> world" where
  "await p k =
     (case p of
        (Fulfilled x, w) \<Rightarrow> k x w
      | (Rejected e, w) \<Rightarrow> (Rejected e, w)
      | (Pending, w) \<Rightarrow> (Pending, w))"

definition try_catch :: "'a promise \<times> world \<Rightarrow> (js_error \<Rightarrow> world \<Rightarrow> 'a promise \<times> world) \<Rightarrow> 'a promise \<times> world" where
  "try_catch p h =
     (case p of
        (Fulfilled x, w) \<Rightarrow> (Fulfilled x, w)
      | (Rejected e, w) \<Rightarrow> h e w
      | (Pending, w) \<Rightarrow> (Pending, w))"

definition TextEncoder_encode :: "string \<Rightarrow> string" where
  "TextEncoder_encode s = s"

section \<open>IndexedDB\<close>

text \<open>
  A transaction is active in the task that created it and in the callbacks of its own
  requests. When the code awaits a promise that is no request of the transaction, it
  depends on the platform's timing what it finds on resuming: if the promise has settled
  before the task ended, the transaction is still active; if not, control has returned to
  the event loop and the transaction is inactive from then on, and placing a request
  throws TransactionInactiveError. The requests that were placed run all the same.
  The requests placed run in order against a working copy of the store. A request that
  fails fires its own \<open>error\<close> event; no handler in the engine calls \<open>preventDefault\<close>,
  so the transaction then aborts and the working copy is dropped. When every request has
  succeeded the transaction commits, which can fail too (\<open>abort\<close>); only \<open>complete\<close>
  replaces the store content.
\<close>

datatype idb_request = Put json string | Clear

record transaction =
  tx_active :: bool
  tx_requests :: "idb_request list"

definition db_transaction :: transaction where
  "db_transaction = \<lparr>tx_active = True, tx_requests = []\<rparr>"

definition return_to_event_loop :: "transaction \<Rightarrow> transaction" where
  "return_to_event_loop tx = tx\<lparr>tx_active := False\<rparr>"

definition await_elsewhere :: "platform \<Rightarrow> transaction \<Rightarrow> world \<Rightarrow> transaction \<times> world" where
  "await_elsewhere pf tx w =
     ((if settles_in_task pf (tick w) then tx else return_to_event_loop tx), advance w)"

definition place :: "transaction \<Rightarrow> idb_request \<Rightarrow> js_error + transaction" where
  "place tx r =
     (if tx_active tx then Inr (tx\<lparr>tx_requests := tx_requests tx @ [r]\<rparr>)
      else Inl (DOMException ''TransactionInactiveError''))"

text \<open>Requests placed one after the other in one synchronous block, up to the first throw.\<close>

fun place_all :: "transaction \<Rightarrow> idb_request list \<Rightarrow> js_error option \<times> transaction" where
  "place_all tx [] = (None, tx)"
| "place_all tx (r # rs) =
     (case place tx r of
        Inl e \<Rightarrow> (Some e, tx)
      | Inr tx' \<Rightarrow> place_all tx' rs)"

fun apply_request :: "idb_request \<Rightarrow> (string \<rightharpoonup> json) \<Rightarrow> (string \<rightharpoonup> json)" where
  "apply_request (Put v key) m = m(key \<mapsto> v)"
| "apply_request Clear m = Map.empty"

text \<open>The index of the first request that fails, the working copy, the counter.\<close>

fun run_requests :: "platform \<Rightarrow> idb_request list \<Rightarrow> nat \<Rightarrow> (string \<rightharpoonup> json) \<Rightarrow> nat
    \<Rightarrow> nat option \<times> (string \<rightharpoonup> json) \<times> nat" where
  "run_requests pf [] i working t = (None, working, t)"
| "run_requests pf (r # rs) i working t =
     (if request_succeeds pf t then run_requests pf rs (i + 1) (apply_request r working) (t + 1)
      else (Some i, working, t + 1))"

datatype tx_event = Complete | RequestError nat | Abort

definition settle :: "platform \<Rightarrow> transaction \<Rightarrow> world \<Rightarrow> tx_event \<times> world" where
  "settle pf tx w =
     (case run_requests pf (tx_requests tx) 0 (idb w) (tick w) of
        (Some i, working, t) \<Rightarrow> (RequestError i, w\<lparr>tick := t\<rparr>)
      | (None, working, t) \<Rightarrow>
          if commit_succeeds pf t then (Complete, w\<lparr>idb := working, tick := t + 1\<rparr>)
          else (Abort, w\<lparr>tick := t + 1\<rparr>))"

text \<open>A \<open>readonly\<close> transaction with one \<open>store.get(key)\<close>.\<close>

definition store_get :: "platform \<Rightarrow> string \<Rightarrow> world \<Rightarrow> json option promise \<times> world" where
  "store_get pf key w =
     (if request_succeeds pf (tick w) then (Fulfilled (idb w key), advance w)
      else (Rejected (DOMException (idb_error_message pf)), advance w))"

section \<open>The crypto engine (cryptoEngine.js)\<close>

definition initDB :: "platform \<Rightarrow> world \<Rightarrow> unit promise \<times> world" where
  "initDB pf w =
     (if engine_db w then (Fulfilled (), w)
      else if indexedDB_open pf (tick w) then (Fulfilled (), (advance w)\<lparr>engine_db := True\<rparr>)
      else (Rejected (DOMException (idb_error_message pf)), advance w))"

definition generateFingerprint :: "platform \<Rightarrow> json \<Rightarrow> string" where
  "generateFingerprint pf publicKeyJWK =
     (case stringify_sorted_keys publicKeyJWK of
        Inl e \<Rightarrow> ''unknown''
      | Inr keyString \<Rightarrow>
          (case subtle_digest pf (TextEncoder_encode keyString) of
             None \<Rightarrow> ''unknown''
           | Some hashBuffer \<Rightarrow>
               (let hashHex = concat (map (\<lambda>b. hex2 (of_char b)) hashBuffer)
                in take 16 hashHex)))"

definition storage_failed :: "nat \<Rightarrow> string" where
  "storage_failed i =
     (if i = 0 then ''Private key storage failed''
      else if i = 1 then ''Public key storage failed''
      else ''Metadata storage failed'')"

definition key_metadata :: "string \<Rightarrow> string \<Rightarrow> json" where
  "key_metadata created fingerprint =
     JObj [(''created'', JStr created), (''algorithm'', JStr ''ECDSA''),
           (''curve'', JStr ''P-384''), (''fingerprint'', JStr fingerprint)]"

definition or_default :: "string \<Rightarrow> string \<Rightarrow> string" where
  "or_default s d = (if s = [] then d else s)"

definition storeKeyPair :: "platform \<Rightarrow> keyPair \<Rightarrow> world \<Rightarrow> bool promise \<times> world" where
  "storeKeyPair pf kp w =
     (let privateKeyJWK = exportKey_jwk (privateKey kp);
          publicKeyJWK = exportKey_jwk (publicKey kp);
          fingerprint = generateFingerprint pf publicKeyJWK
      in case initDB pf w of
           (Rejected e, w1) \<Rightarrow>
             (Rejected (Error (''Failed to store cryptographic keys: '' @ message e)), w1)
         | (Pending, w1) \<Rightarrow> (Pending, w1)
         | (Fulfilled u, w1) \<Rightarrow>
             (let created = Date_toISOString pf (tick w1);
                  w2 = advance w1
              in case place_all db_transaction
                     [Put privateKeyJWK ''ecdsa_private_key'',
                      Put publicKeyJWK ''ecdsa_public_key'',
                      Put (key_metadata created fingerprint) ''key_metadata''] of
                   (Some e, tx) \<Rightarrow>
                     (Rejected (Error (''Store operation failed: '' @ message e)),
                      snd (settle pf tx w2))
                 | (None, tx) \<Rightarrow>
                     (case settle pf tx w2 of
                        (Complete, w3) \<Rightarrow> (Fulfilled True, w3)
                      | (RequestError i, w3) \<Rightarrow> (Rejected (Error (storage_failed i)), w3)
                      | (Abort, w3) \<Rightarrow>
                          (Rejected (Error (''Transaction aborted: ''
                             @ or_default (idb_error_message pf) ''Unknown reason'')), w3))))"

text \<open>
  The second copy of the engine in the same file: it opens the database on every call, and
  its \<open>storeKeyPair\<close> creates the transaction first and then awaits \<open>exportKey\<close>
  (twice) and \<open>generateFingerprint\<close> between the puts. A put that finds the transaction
  inactive throws, and every throw ends in the one \<open>catch\<close>; the transaction left
  behind settles with the requests placed so far. The function returns \<open>true\<close> after
  the third put, without waiting for the transaction.
\<close>

definition initDB_2 :: "platform \<Rightarrow> world \<Rightarrow> unit promise \<times> world" where
  "initDB_2 pf w =
     (if indexedDB_open pf (tick w) then (Fulfilled (), advance w)
      else (Rejected (DOMException (idb_error_message pf)), advance w))"

definition storeKeyPair_2 :: "platform \<Rightarrow> keyPair \<Rightarrow> world \<Rightarrow> bool promise \<times> world" where
  "storeKeyPair_2 pf kp w =
     (let failed = Error ''Failed to store cryptographic keys''
      in case initDB_2 pf w of
           (Rejected e, w1) \<Rightarrow> (Rejected failed, w1)
         | (Pending, w1) \<Rightarrow> (Pending, w1)
         | (Fulfilled u, w1) \<Rightarrow>
             (let privateKeyJWK = exportKey_jwk (privateKey kp);
                  (tx0, w2) = await_elsewhere pf db_transaction w1
              in case place tx0 (Put privateKeyJWK ''ecdsa_private_key'') of
                   Inl e \<Rightarrow> (Rejected failed, snd (settle pf tx0 w2))
                 | Inr tx1 \<Rightarrow>
                     (let publicKeyJWK = exportKey_jwk (publicKey kp);
                          (tx1', w3) = await_elsewhere pf tx1 w2
                      in case place tx1' (Put publicKeyJWK ''ecdsa_public_key'') of
                           Inl e \<Rightarrow> (Rejected failed, snd (settle pf tx1' w3))
                         | Inr tx2 \<Rightarrow>
                             (let created = Date_toISOString pf (tick w3);
                                  fingerprint = generateFingerprint pf publicKeyJWK;
                                  (tx2', w5) = await_elsewhere pf tx2 (advance w3)
                              in case place tx2'
                                     (Put (key_metadata created fingerprint) ''key_metadata'') of
                                   Inl e \<Rightarrow> (Rejected failed, snd (settle pf tx2' w5))
                                 | Inr tx3 \<Rightarrow> (Fulfilled True, snd (settle pf tx3 w5))))))"

definition generateKeyPair :: "platform \<Rightarrow> world \<Rightarrow> keyPair promise \<times> world" where
  "generateKeyPair pf w =
     try_catch
       (let w1 = (advance w)\<lparr>keygens := keygens w + 1\<rparr>
        in case generateKey_ECDSA pf (tick w) of
             None \<Rightarrow> (Rejected (DOMException ''OperationError''), w1)
           | Some kp \<Rightarrow> await (storeKeyPair pf kp w1) (\<lambda>stored w2. (Fulfilled kp, w2)))
       (\<lambda>error w'. (Rejected (Error ''Failed to generate cryptographic keys''), w'))"

text \<open>
  \<open>getPrivateKey\<close> returns the promise it builds without awaiting it, so its \<open>catch\<close>
  sees only a failure of \<open>initDB\<close>. The \<open>onsuccess\<close> handler is itself async: when
  \<open>importKey\<close> throws in it, neither \<open>resolve\<close> nor \<open>reject\<close> is ever called.
\<close>

definition getPrivateKey :: "platform \<Rightarrow> world \<Rightarrow> CryptoKey promise \<times> world" where
  "getPrivateKey pf w =
     (case initDB pf w of
        (Rejected e, w1) \<Rightarrow> (Rejected (Error ''Failed to retrieve private key''), w1)
      | (Pending, w1) \<Rightarrow> (Pending, w1)
      | (Fulfilled u, w1) \<Rightarrow>
          await (store_get pf ''ecdsa_private_key'' w1)
            (\<lambda>result w2.
               case result of
                 None \<Rightarrow> (Rejected (Error ''Private key not found''), w2)
               | Some jwk \<Rightarrow>
                   if truthy jwk then
                     (if importKey_succeeds pf jwk then (Fulfilled jwk, w2) else (Pending, w2))
                   else (Rejected (Error ''Private key not found''), w2)))"

definition signData :: "platform \<Rightarrow> json \<Rightarrow> world \<Rightarrow> string promise \<times> world" where
  "signData pf data w =
     try_catch
       (await (getPrivateKey pf w)
          (\<lambda>privateKey w1.
             case stringify_sorted_keys data of
               Inl e \<Rightarrow> (Rejected e, w1)
             | Inr s \<Rightarrow>
                 (case subtle_sign pf (tick w1) privateKey (TextEncoder_encode s) of
                    None \<Rightarrow> (Rejected (DOMException ''OperationError''), advance w1)
                  | Some signature \<Rightarrow> (Fulfilled (btoa pf signature), advance w1))))
       (\<lambda>error w'. (Rejected (Error ''Failed to sign data''), w'))"

definition generateAESKey :: "platform \<Rightarrow> world \<Rightarrow> CryptoKey promise \<times> world" where
  "generateAESKey pf w =
     (case generateKey_AES pf (tick w) of
        None \<Rightarrow> (Rejected (DOMException ''OperationError''), advance w)
      | Some k \<Rightarrow> (Fulfilled k, advance w))"

definition encryptData :: "platform \<Rightarrow> json \<Rightarrow> CryptoKey option \<Rightarrow> world \<Rightarrow> json promise \<times> world" where
  "encryptData pf data key w =
     try_catch
       (await (case key of Some k \<Rightarrow> (Fulfilled k, w) | None \<Rightarrow> generateAESKey pf w)
          (\<lambda>aesKey w1.
             let dataBuffer = TextEncoder_encode (JSON_stringify data None);
                 iv = getRandomValues pf (tick w1);
                 w2 = advance w1
             in case subtle_encrypt pf aesKey iv dataBuffer of
                  None \<Rightarrow> (Rejected (DOMException ''OperationError''), w2)
                | Some encrypted \<Rightarrow>
                    (Fulfilled (JObj [(''encrypted'', JStr (btoa pf encrypted)),
                                      (''iv'', JStr (btoa pf iv)),
                                      (''key'', exportKey_jwk aesKey)]), w2)))
       (\<lambda>error w'. (Rejected (Error ''Failed to encrypt data''), w'))"

definition hasKeys :: "platform \<Rightarrow> world \<Rightarrow> bool \<times> world" where
  "hasKeys pf w =
     (case initDB pf w of
        (Fulfilled u, w1) \<Rightarrow>
          (case store_get pf ''key_metadata'' w1 of
             (Fulfilled result, w2) \<Rightarrow>
               ((case result of None \<Rightarrow> False | Some v \<Rightarrow> truthy v), w2)
           | (Rejected e, w2) \<Rightarrow> (False, w2)
           | (Pending, w2) \<Rightarrow> (False, w2))
      | (Rejected e, w1) \<Rightarrow> (False, w1)
      | (Pending, w1) \<Rightarrow> (False, w1))"

definition getPublicKeyJWK :: "platform \<Rightarrow> world \<Rightarrow> json promise \<times> world" where
  "getPublicKeyJWK pf w =
     (case initDB pf w of
        (Rejected e, w1) \<Rightarrow> (Rejected (Error ''Failed to export public key''), w1)
      | (Pending, w1) \<Rightarrow> (Pending, w1)
      | (Fulfilled u, w1) \<Rightarrow>
          await (store_get pf ''ecdsa_public_key'' w1)
            (\<lambda>result w2.
               case result of
                 None \<Rightarrow> (Rejected (Error ''Public key not found''), w2)
               | Some jwk \<Rightarrow>
                   if truthy jwk then (Fulfilled jwk, w2)
                   else (Rejected (Error ''Public key not found''), w2)))"

definition getKeyFingerprint :: "platform \<Rightarrow> world \<Rightarrow> json promise \<times> world" where
  "getKeyFingerprint pf w =
     (case initDB pf w of
        (Rejected e, w1) \<Rightarrow> (Rejected (Error ''Failed to retrieve fingerprint''), w1)
      | (Pending, w1) \<Rightarrow> (Pending, w1)
      | (Fulfilled u, w1) \<Rightarrow>
          await (store_get pf ''key_metadata'' w1)
            (\<lambda>result w2.
               case result of
                 None \<Rightarrow> (Rejected (Error ''Fingerprint not found''), w2)
               | Some md \<Rightarrow>
                   (case (if truthy md then get_prop md ''fingerprint'' else Inr None) of
                      Inr (Some fp) \<Rightarrow>
                        if truthy fp then (Fulfilled fp, w2)
                        else (Rejected (Error ''Fingerprint not found''), w2)
                    | _ \<Rightarrow> (Rejected (Error ''Fingerprint not found''), w2))))"

text \<open>
  \<open>clearKeys\<close> awaits the request object of \<open>store.clear()\<close>, which is no promise: it
  returns \<open>true\<close> whatever becomes of the transaction.
\<close>

definition clearKeys :: "platform \<Rightarrow> world \<Rightarrow> bool \<times> world" where
  "clearKeys pf w =
     (case initDB pf w of
        (Fulfilled u, w1) \<Rightarrow>
          (case place db_transaction Clear of
             Inl e \<Rightarrow> (False, w1)
           | Inr tx \<Rightarrow> (True, snd (settle pf tx w1)))
      | (Rejected e, w1) \<Rightarrow> (False, w1)
      | (Pending, w1) \<Rightarrow> (False, w1))"

section \<open>The secure client (secureApiClient.js)\<close>

text \<open>
  The \<open>options\<close> argument: the members that the client itself also sets. \<open>None\<close> is a
  member that is not there.
\<close>

record fetch_options =
  opt_method :: "string option"
  opt_headers :: "(string \<times> string) list option"
  opt_body :: "string option"

definition no_options :: fetch_options where
  "no_options = \<lparr>opt_method = None, opt_headers = None, opt_body = None\<rparr>"

definition baseURL :: "platform \<Rightarrow> string" where
  "baseURL pf =
     (case VITE_API_URL pf of
        Some u \<Rightarrow> or_default u ''http://localhost:8000/api''
      | None \<Rightarrow> ''http://localhost:8000/api'')"

definition middlewareURL :: "platform \<Rightarrow> string" where
  "middlewareURL pf =
     (case VITE_MIDDLEWARE_URL pf of
        Some u \<Rightarrow> or_default u ''http://localhost:8000/api''
      | None \<Rightarrow> ''http://localhost:8000/api'')"

text \<open>\<open>o[k] = v\<close> on an object literal, and the spread \<open>{...base, ...extra}\<close>.\<close>

fun obj_set :: "string \<Rightarrow> 'v \<Rightarrow> (string \<times> 'v) list \<Rightarrow> (string \<times> 'v) list" where
  "obj_set k v [] = [(k, v)]"
| "obj_set k v ((k', v') # kvs) = (if k' = k then (k, v) # kvs else (k', v') # obj_set k v kvs)"

definition spread :: "(string \<times> 'v) list \<Rightarrow> (string \<times> 'v) list \<Rightarrow> (string \<times> 'v) list" where
  "spread base extra = foldl (\<lambda>acc (k, v). obj_set k v acc) base extra"

text \<open>
  \<open>fetch\<close>: the Request constructor throws a TypeError for a GET or HEAD request with a
  body; otherwise the request goes out and the server answers, or the network fails.
\<close>

definition fetch :: "platform \<Rightarrow> request \<Rightarrow> world \<Rightarrow> response promise \<times> world" where
  "fetch pf req w =
     (if (req_method req = ''GET'' \<or> req_method req = ''HEAD'') \<and> req_body req \<noteq> None
      then (Rejected (TypeError ''Request with GET/HEAD method cannot have body''), w)
      else (let w1 = (advance w)\<lparr>sent := sent w @ [req]\<rparr>
            in case server pf (tick w) req of
                 None \<Rightarrow> (Rejected (TypeError ''Failed to fetch''), w1)
               | Some r \<Rightarrow> (Fulfilled r, w1)))"

definition response_json :: "response \<Rightarrow> world \<Rightarrow> json promise \<times> world" where
  "response_json r w =
     (case res_json r of
        None \<Rightarrow> (Rejected (SyntaxError ''Unexpected token''), w)
      | Some v \<Rightarrow> (Fulfilled v, w))"

definition first_truthy :: "json option \<Rightarrow> string \<Rightarrow> string" where
  "first_truthy v d = (case v of None \<Rightarrow> d | Some x \<Rightarrow> if truthy x then ToString x else d)"

definition registerPublicKey :: "platform \<Rightarrow> world \<Rightarrow> json promise \<times> world" where
  "registerPublicKey pf w =
     await (getPublicKeyJWK pf w) (\<lambda>publicKeyJWK w1.
     await (getKeyFingerprint pf w1) (\<lambda>fingerprint w2.
     await (fetch pf
              \<lparr>req_url = middlewareURL pf @ ''/auth/register-key/'',
               req_method = ''POST'',
               req_headers = [(''Content-Type'', ''application/json'')],
               req_body = Some (JSON_stringify
                  (JObj [(''public_key'', publicKeyJWK), (''algorithm'', JStr ''ECDSA''),
                         (''curve'', JStr ''P-384''), (''fingerprint'', fingerprint)]) None)\<rparr> w2)
       (\<lambda>response w3.
          if \<not> res_ok response then
            await (response_json response w3) (\<lambda>errorData w4.
              case get_prop errorData ''error'' of
                Inl e \<Rightarrow> (Rejected e, w4)
              | Inr v \<Rightarrow>
                  (Rejected (Error (''Server registration failed: ''
                     @ first_truthy v (res_statusText response))), w4))
          else response_json response w3)))"

definition verifyCryptoStatus :: "platform \<Rightarrow> world \<Rightarrow> json option promise \<times> world" where
  "verifyCryptoStatus pf w =
     try_catch
       (await (getKeyFingerprint pf w) (\<lambda>fingerprint w1.
        await (fetch pf
                 \<lparr>req_url = middlewareURL pf @ ''/auth/crypto-status/?fingerprint=''
                              @ ToString fingerprint,
                  req_method = ''GET'',
                  req_headers = [(''Content-Type'', ''application/json'')],
                  req_body = None\<rparr> w1)
          (\<lambda>response w2.
             if res_ok response then
               await (response_json response w2) (\<lambda>result w3. (Fulfilled (Some result), w3))
             else (Fulfilled None, w2))))
       (\<lambda>error w'. (Fulfilled None, w'))"

definition initializeSession :: "platform \<Rightarrow> world \<Rightarrow> bool promise \<times> world" where
  "initializeSession pf w =
     (if isInitialized w then (Fulfilled True, w)
      else (case hasKeys pf w of
              (hasKeys', w1) \<Rightarrow>
                await
                  (if \<not> hasKeys' then
                     await (generateKeyPair pf w1) (\<lambda>keyPair' w2.
                     await (registerPublicKey pf w2) (\<lambda>registered w3. (Fulfilled (), w3)))
                   else
                     await (verifyCryptoStatus pf w1) (\<lambda>verified w2. (Fulfilled (), w2)))
                  (\<lambda>u w4. (Fulfilled True, w4\<lparr>isInitialized := True\<rparr>))))"

definition encryptedEndpoints :: "string list" where
  "encryptedEndpoints =
     [''/transactions/'', ''/transfer/'', ''/accounts/'', ''/auth/login/'',
      ''/auth/change-password/'', ''/profile/update/'', ''/cards/'', ''/beneficiaries/'']"

definition shouldEncrypt :: "string \<Rightarrow> bool" where
  "shouldEncrypt endpoint = list_ex (\<lambda>ep. String_includes endpoint ep) encryptedEndpoints"

definition signedEndpoints :: "string list" where
  "signedEndpoints =
     [''/transactions/'', ''/accounts/'', ''/profile/'', ''/cards/'', ''/beneficiaries/'',
      ''/auth/logout/'', ''/auth/change-password/'']"

definition shouldSign :: "string \<Rightarrow> bool" where
  "shouldSign endpoint = list_ex (\<lambda>ep. String_includes endpoint ep) signedEndpoints"

definition generateRequestId :: "platform \<Rightarrow> world \<Rightarrow> string \<times> world" where
  "generateRequestId pf w =
     (let timestamp = Date_now pf (tick w);
          random = take 9 (drop 2 (Math_random_base36 pf (tick w + 1)))
      in (''req_'' @ decimal timestamp @ ''_'' @ random, advance (advance w)))"

definition getAuthToken :: "world \<Rightarrow> string option" where
  "getAuthToken w =
     (case localStorage w ''authToken'' of
        None \<Rightarrow> sessionStorage w ''authToken''
      | Some t \<Rightarrow> if t \<noteq> [] then Some t else sessionStorage w ''authToken'')"

definition add_auth_token :: "world \<Rightarrow> request \<Rightarrow> request" where
  "add_auth_token w req =
     (case getAuthToken w of
        None \<Rightarrow> req
      | Some token \<Rightarrow>
          if token \<noteq> [] then req\<lparr>req_headers := obj_set ''Authorization'' (''Token '' @ token) (req_headers req)\<rparr>
          else req)"

text \<open>The local objects of \<open>createSecureRequest\<close>.\<close>

definition requestPayload :: "string \<Rightarrow> string \<Rightarrow> json \<Rightarrow> string \<Rightarrow> string \<Rightarrow> json" where
  "requestPayload endpoint method data timestamp requestId =
     JObj [(''endpoint'', JStr endpoint), (''method'', JStr method), (''data'', data),
           (''timestamp'', JStr timestamp), (''request_id'', JStr requestId)]"

definition secureRequest :: "string \<Rightarrow> string \<Rightarrow> json \<Rightarrow> string \<Rightarrow> string \<Rightarrow> string \<Rightarrow> json \<Rightarrow> json \<Rightarrow> json" where
  "secureRequest endpoint method data timestamp requestId signature fingerprint encryptedData =
     JObj [(''endpoint'', JStr endpoint), (''method'', JStr method), (''data'', data),
           (''timestamp'', JStr timestamp), (''request_id'', JStr requestId),
           (''signature'', JStr signature), (''public_key_fingerprint'', fingerprint),
           (''encrypted_data'', encryptedData)]"

text \<open>
  \<open>{ method, headers: {..., ...options.headers}, body: ..., ...options }\<close>: the spread of
  \<open>options\<close> comes last, so a \<open>method\<close>, \<open>headers\<close> or \<open>body\<close> member of
  \<open>options\<close> replaces the one computed before it.
\<close>

definition with_options :: "string \<Rightarrow> string \<Rightarrow> (string \<times> string) list \<Rightarrow> string option \<Rightarrow> fetch_options \<Rightarrow> request" where
  "with_options u method headers body options =
     \<lparr>req_url = u,
      req_method = (case opt_method options of None \<Rightarrow> method | Some m \<Rightarrow> m),
      req_headers = (case opt_headers options of None \<Rightarrow> headers | Some h \<Rightarrow> h),
      req_body = (case opt_body options of None \<Rightarrow> body | Some b \<Rightarrow> Some b)\<rparr>"

definition secure_requestOptions :: "platform \<Rightarrow> string \<Rightarrow> string \<Rightarrow> string \<Rightarrow> string \<Rightarrow> string \<Rightarrow> string \<Rightarrow> json \<Rightarrow> fetch_options \<Rightarrow> request" where
  "secure_requestOptions pf endpoint method timestamp requestId signature fingerprint secureRequest' options =
     with_options (baseURL pf @ endpoint) method
       (spread
          [(''Content-Type'', ''application/json''), (''X-Secure-Cipher'', ''true''),
           (''X-Request-ID'', requestId), (''X-Timestamp'', timestamp),
           (''X-Signature'', signature), (''X-Fingerprint'', fingerprint)]
          (case opt_headers options of None \<Rightarrow> [] | Some h \<Rightarrow> h))
       (if method \<noteq> ''GET'' then Some (JSON_stringify secureRequest' None) else None)
       options"

definition createSecureRequest :: "platform \<Rightarrow> string \<Rightarrow> string \<Rightarrow> json \<Rightarrow> fetch_options \<Rightarrow> world \<Rightarrow> response promise \<times> world" where
  "createSecureRequest pf endpoint method data options w =
     await (initializeSession pf w) (\<lambda>initialized w1.
       let timestamp = Date_toISOString pf (tick w1);
           (requestId, w3) = generateRequestId pf (advance w1)
       in await (signData pf (requestPayload endpoint method data timestamp requestId) w3)
            (\<lambda>signature w4.
          await (getKeyFingerprint pf w4) (\<lambda>fingerprint w5.
          await (if truthy data \<and> shouldEncrypt endpoint then encryptData pf data None w5
                 else (Fulfilled JNull, w5))
            (\<lambda>encryptedData w6.
               case fingerprint of
                 JStr fp \<Rightarrow>
                   fetch pf
                     (add_auth_token w6
                        (secure_requestOptions pf endpoint method timestamp requestId signature fp
                           (secureRequest endpoint method data timestamp requestId signature
                              fingerprint encryptedData)
                           options)) w6
               | _ \<Rightarrow> (Rejected (TypeError ''fingerprint.substr is not a function''), w6)))))"

definition createRegularRequest :: "platform \<Rightarrow> string \<Rightarrow> string \<Rightarrow> json \<Rightarrow> fetch_options \<Rightarrow> world \<Rightarrow> response promise \<times> world" where
  "createRegularRequest pf endpoint method data options w =
     fetch pf
       (add_auth_token w
          (with_options (baseURL pf @ endpoint) method
             (spread [(''Content-Type'', ''application/json'')]
                (case opt_headers options of None \<Rightarrow> [] | Some h \<Rightarrow> h))
             (if method \<noteq> ''GET'' \<and> truthy data then Some (JSON_stringify data None) else None)
             options)) w"

definition smartRequest :: "platform \<Rightarrow> string \<Rightarrow> string \<Rightarrow> json \<Rightarrow> fetch_options \<Rightarrow> world \<Rightarrow> response promise \<times> world" where
  "smartRequest pf endpoint method data options w =
     (let requiresCrypto = shouldSign endpoint \<or> shouldEncrypt endpoint
      in if requiresCrypto then createSecureRequest pf endpoint method data options w
         else createRegularRequest pf endpoint method data options w)"

definition handleResponse :: "response \<Rightarrow> world \<Rightarrow> json promise \<times> world" where
  "handleResponse response w =
     await
       (case res_content_type response of
          None \<Rightarrow> (Fulfilled (JObj [(''message'', JStr (res_text response))]), w)
        | Some contentType \<Rightarrow>
            if contentType \<noteq> [] \<and> String_includes contentType ''application/json''
            then response_json response w
            else (Fulfilled (JObj [(''message'', JStr (res_text response))]), w))
       (\<lambda>data w1.
          if \<not> res_ok response then
            (case get_prop data ''code'' of
               Inl e \<Rightarrow> (Rejected e, w1)
             | Inr code \<Rightarrow>
                 (case (get_prop data ''error'', get_prop data ''message'') of
                    (Inr err, Inr msg) \<Rightarrow>
                      (Rejected (Error (first_truthy err (first_truthy msg
                         (''HTTP '' @ decimal (res_status response) @ '': ''
                            @ res_statusText response)))), w1)
                  | _ \<Rightarrow> (Rejected (TypeError ''Cannot read properties of null''), w1)))
          else (Fulfilled data, w1))"

definition get :: "platform \<Rightarrow> string \<Rightarrow> fetch_options \<Rightarrow> world \<Rightarrow> json promise \<times> world" where
  "get pf endpoint options w =
     await (smartRequest pf endpoint ''GET'' JNull options w) handleResponse"

definition post :: "platform \<Rightarrow> string \<Rightarrow> json \<Rightarrow> fetch_options \<Rightarrow> world \<Rightarrow> json promise \<times> world" where
  "post pf endpoint data options w =
     await (smartRequest pf endpoint ''POST'' data options w) handleResponse"

definition resetCryptoSession :: "platform \<Rightarrow> world \<Rightarrow> bool \<times> world" where
  "resetCryptoSession pf w =
     (case clearKeys pf w of (cleared, w1) \<Rightarrow> (True, w1\<lparr>isInitialized := False\<rparr>))"

text \<open>A settled, successful promise.\<close>

definition fulfilled :: "'a promise \<times> world \<Rightarrow> bool" where
  "fulfilled p = (case fst p of Fulfilled x \<Rightarrow> True | Rejected e \<Rightarrow> False | Pending \<Rightarrow> False)"

section \<open>What an operation leaves alone\<close>

text \<open>
  The part of the state that only \<open>initializeSession\<close>, \<open>resetCryptoSession\<close>,
  \<open>generateKeyPair\<close> and the page itself write.
\<close>

definition kept :: "world \<Rightarrow> world \<Rightarrow> bool" where
  "kept w w' \<longleftrightarrow>
     isInitialized w' = isInitialized w \<and> keygens w' = keygens w
     \<and> localStorage w' = localStorage w \<and> sessionStorage w' = sessionStorage w"

section \<open>Test data\<close>

text \<open>
  A platform on which every primitive succeeds. Its ``signature'' is the bytes it was
  asked to sign, its digest the bytes it was asked to hash and its base64 the identity,
  so that an evaluated request shows what was signed. Keys and nonces drawn are numbered
  by the draw.
\<close>

definition test_publicKey :: json where
  "test_publicKey =
     JObj [(''kty'', JStr ''EC''), (''crv'', JStr ''P-384''), (''x'', JStr ''eHh4''),
           (''y'', JStr ''eXl5''), (''ext'', JBool True), (''key_ops'', JArr [JStr ''verify''])]"

definition test_privateKey :: json where
  "test_privateKey =
     JObj [(''kty'', JStr ''EC''), (''crv'', JStr ''P-384''), (''x'', JStr ''eHh4''),
           (''y'', JStr ''eXl5''), (''d'', JStr ''ZGRk''), (''ext'', JBool True),
           (''key_ops'', JArr [JStr ''sign''])]"

definition other_publicKey :: json where
  "other_publicKey =
     JObj [(''kty'', JStr ''EC''), (''crv'', JStr ''P-384''), (''x'', JStr ''YWFh''),
           (''y'', JStr ''YmJi''), (''ext'', JBool True), (''key_ops'', JArr [JStr ''verify''])]"

definition test_keyPair :: keyPair where
  "test_keyPair = \<lparr>privateKey = test_privateKey, publicKey = test_publicKey\<rparr>"

definition ok_response :: response where
  "ok_response =
     \<lparr>res_ok = True, res_status = 200, res_statusText = ''OK'',
      res_content_type = Some ''application/json'',
      res_json = Some (JObj [(''status'', JStr ''ok'')]), res_text = []\<rparr>"

definition test_platform :: platform where
  "test_platform =
     \<lparr>indexedDB_open = (\<lambda>t. True),
      request_succeeds = (\<lambda>t. True),
      commit_succeeds = (\<lambda>t. True),
      settles_in_task = (\<lambda>t. False),
      idb_error_message = ''QuotaExceededError'',
      generateKey_ECDSA = (\<lambda>t. Some test_keyPair),
      generateKey_AES = (\<lambda>t. Some (JNum (int t))),
      getRandomValues = (\<lambda>t. decimal t),
      importKey_succeeds = (\<lambda>jwk. True),
      subtle_sign = (\<lambda>t k bytes. Some bytes),
      subtle_digest = (\<lambda>bytes. Some bytes),
      subtle_encrypt = (\<lambda>k iv bytes. Some (rev bytes)),
      btoa = (\<lambda>bytes. bytes),
      Date_toISOString = (\<lambda>t. ''2025-01-01T00:00:00.000Z''),
      Date_now = (\<lambda>t. 1735689600000),
      Math_random_base36 = (\<lambda>t. ''0.4fzyo82mvyr''),
      server = (\<lambda>t req. Some ok_response),
      VITE_API_URL = None,
      VITE_MIDDLEWARE_URL = None\<rparr>"

text \<open>
  The same platform without a working digest; with a store that cannot commit; and with
  a timing on which the two \<open>exportKey\<close> promises of the second \<open>storeKeyPair\<close>
  settle before the task ends and the digest does not.
\<close>

definition late_digest_platform :: platform where
  "late_digest_platform = test_platform\<lparr>settles_in_task := (\<lambda>t. t < 4)\<rparr>"

definition no_digest_platform :: platform where
  "no_digest_platform = test_platform\<lparr>subtle_digest := (\<lambda>bytes. None)\<rparr>"

definition no_commit_platform :: platform where
  "no_commit_platform = test_platform\<lparr>commit_succeeds := (\<lambda>t. False)\<rparr>"

definition empty_world :: world where
  "empty_world =
     \<lparr>idb = Map.empty, engine_db = False, isInitialized = False,
      localStorage = Map.empty, sessionStorage = Map.empty,
      tick = 0, sent = [], keygens = 0\<rparr>"

text \<open>A store that holds the metadata record and no key; a provisioned, initialized client.\<close>

definition metadata_only_world :: world where
  "metadata_only_world =
     empty_world\<lparr>idb := [''key_metadata'' \<mapsto>
        key_metadata ''2025-01-01T00:00:00.000Z'' ''0123456789abcdef'']\<rparr>"

definition ready_world :: world where
  "ready_world =
     empty_world\<lparr>idb := [''ecdsa_private_key'' \<mapsto> test_privateKey,
                          ''ecdsa_public_key'' \<mapsto> test_publicKey,
                          ''key_metadata'' \<mapsto>
                            key_metadata ''2025-01-01T00:00:00.000Z'' ''0123456789abcdef''],
                  engine_db := True, isInitialized := True\<rparr>"

definition headers_only_options :: fetch_options where
  "headers_only_options = \<lparr>opt_method = None, opt_headers = Some [], opt_body = None\<rparr>"

section \<open>Rules for evaluating the model on test data\<close>

lemmas json_eval =
  generateFingerprint_def stringify_sorted_keys_def JSON_stringify_def QuoteJSONString_def
  hex2_def digit_char_def backslash_def Number_toString_def decimal.simps

lemmas data_eval =
  test_platform_def no_commit_platform_def no_digest_platform_def late_digest_platform_def
  metadata_only_world_def ready_world_def empty_world_def
  key_metadata_def ok_response_def test_keyPair_def test_publicKey_def test_privateKey_def
  other_publicKey_def exportKey_jwk_def TextEncoder_encode_def

lemmas engine_eval =
  hasKeys_def initDB_def store_get_def advance_def generateKeyPair_def storeKeyPair_def
  settle_def place_def db_transaction_def getPublicKeyJWK_def getKeyFingerprint_def
  getPrivateKey_def encryptData_def generateAESKey_def signData_def
  await_def try_catch_def Let_def fulfilled_def

lemmas client_eval =
  initializeSession_def registerPublicKey_def verifyCryptoStatus_def fetch_def response_json_def
  createSecureRequest_def createRegularRequest_def smartRequest_def get_def post_def
  handleResponse_def add_auth_token_def getAuthToken_def secure_requestOptions_def
  with_options_def spread_def secureRequest_def requestPayload_def generateRequestId_def
  baseURL_def middlewareURL_def shouldEncrypt_def encryptedEndpoints_def shouldSign_def
  signedEndpoints_def no_options_def headers_only_options_def

section \<open>Canonical serialization\<close>

lemma map_of_members:
  "map_of (map (\<lambda>(k, v). (k, f v)) kvs) = map_option f \<circ> map_of kvs"
  by (induction kvs) (auto simp: fun_eq_iff)

lemma sorted_keys_permutation:
  assumes "distinct (map fst a)" and "distinct (map fst b)" and "set a = set b"
  shows "sort (map fst a) = sort (map fst b)"
proof -
  have "set (map fst a) = set (map fst b)"
    using assms(3) by simp
  then have "set (sort (map fst a)) = set (sort (map fst b))"
    by simp
  moreover have "distinct (sort (map fst a))" and "distinct (sort (map fst b))"
    using assms(1,2) by simp_all
  ultimately show ?thesis
    by (intro sorted_distinct_set_unique) simp_all
qed

text \<open>
  With the sorted key list as replacer, an object is read only through the lookup of its
  properties: the order in which its fields were inserted leaves no trace.
\<close>

lemma stringify_sorted_keys_permutation:
  assumes "distinct (map fst a)" and "distinct (map fst b)" and "set a = set b"
  shows "stringify_sorted_keys (JObj a) = stringify_sorted_keys (JObj b)"
proof -
  have "map_of a = map_of b"
    using assms by (simp add: map_of_inject_set)
  then show ?thesis
    using sorted_keys_permutation [OF assms]
    by (simp add: stringify_sorted_keys_def JSON_stringify_def map_of_members)
qed

text \<open>
  C2. The claim: the bytes \<open>signData\<close> signs are the serialization of the entire
  structure, the keys of nested objects such as the request's \<open>data\<close> included, with
  keys sorted. The code passes the sorted top-level keys as the replacer array of
  \<open>JSON.stringify\<close>, and a replacer array is an allow-list at every depth: of the
  payload \<open>{"amount": 100}\<close> nothing is left in the signed bytes (\<open>"data":{}\<close>), and
  requests that differ in the amount alone get the same bytes to sign, hence the same
  result of \<open>signData\<close> on any platform and in any state.
\<close>

theorem signData_omits_nested_keys:
  \<open>stringify_sorted_keys
      (requestPayload ''/transfer/'' ''POST'' (JObj [(''amount'', JNum 100)])
         ''2025-01-01T00:00:00.000Z'' ''req_1735689600000_4fzyo82mv'')
    = Inr ''{"data":{},"endpoint":"/transfer/","method":"POST","request_id":"req_1735689600000_4fzyo82mv","timestamp":"2025-01-01T00:00:00.000Z"}''
   \<and> signData pf (requestPayload endpoint method (JObj [(''amount'', JNum 100)]) timestamp requestId) w
     = signData pf (requestPayload endpoint method (JObj [(''amount'', JNum 999999)]) timestamp requestId) w\<close>
  by (simp add: signData_def stringify_sorted_keys_def requestPayload_def JSON_stringify_def
      QuoteJSONString_def backslash_def)

section \<open>The fingerprint\<close>

text \<open>
  C7, as amended. \<open>generateFingerprint\<close> is a function of the exported public key and
  of the platform's digest, and two exports of the same key that list the same fields in
  different orders get the same fingerprint. So the fingerprint changes only if the key
  does. The converse is not promised: distinct keys can share a fingerprint.
\<close>

theorem generateFingerprint_field_order:
  assumes "distinct (map fst a)" and "distinct (map fst b)" and "set a = set b"
  shows "generateFingerprint pf (JObj a) = generateFingerprint pf (JObj b)"
  using stringify_sorted_keys_permutation [OF assms]
  by (simp add: generateFingerprint_def)

theorem generateFingerprint_field_order_witness:
  "distinct (map fst [(''kty'', JStr ''EC''), (''crv'', JStr ''P-384''), (''x'', JStr ''eHh4'')])
   \<and> distinct (map fst [(''x'', JStr ''eHh4''), (''crv'', JStr ''P-384''), (''kty'', JStr ''EC'')])
   \<and> set [(''kty'', JStr ''EC''), (''crv'', JStr ''P-384''), (''x'', JStr ''eHh4'')]
       = set [(''x'', JStr ''eHh4''), (''crv'', JStr ''P-384''), (''kty'', JStr ''EC'')]
   \<and> generateFingerprint test_platform
         (JObj [(''kty'', JStr ''EC''), (''crv'', JStr ''P-384''), (''x'', JStr ''eHh4'')])
       = generateFingerprint test_platform
           (JObj [(''x'', JStr ''eHh4''), (''crv'', JStr ''P-384''), (''kty'', JStr ''EC'')])"
proof -
  have d1: "distinct (map fst [(''kty'', JStr ''EC''), (''crv'', JStr ''P-384''), (''x'', JStr ''eHh4'')])"
    by simp
  have d2: "distinct (map fst [(''x'', JStr ''eHh4''), (''crv'', JStr ''P-384''), (''kty'', JStr ''EC'')])"
    by simp
  have s: "set [(''kty'', JStr ''EC''), (''crv'', JStr ''P-384''), (''x'', JStr ''eHh4'')]
       = set [(''x'', JStr ''eHh4''), (''crv'', JStr ''P-384''), (''kty'', JStr ''EC'')]"
    by auto
  show ?thesis
    using d1 d2 s generateFingerprint_field_order [OF d1 d2 s, of test_platform] by simp
qed

text \<open>
  The claim's ``changes if and only if the key pair changes'' fails in the ``if''
  direction: on a platform whose digest throws, two different public keys both get the
  fingerprint of the \<open>catch\<close> branch.
\<close>

theorem generateFingerprint_collision:
  "generateFingerprint no_digest_platform test_publicKey
     = generateFingerprint no_digest_platform other_publicKey
   \<and> test_publicKey \<noteq> other_publicKey"
  by (simp add: generateFingerprint_def no_digest_platform_def test_publicKey_def
      other_publicKey_def stringify_sorted_keys_def)

section \<open>Effects of the engine's operations\<close>

lemma kept_refl [simp]: "kept w w"
  by (simp add: kept_def)

lemma kept_trans: "kept w w1 \<Longrightarrow> kept w1 w2 \<Longrightarrow> kept w w2"
  by (simp add: kept_def)

lemma initDB_effect:
  "initDB pf w = (r, w') \<Longrightarrow> r \<noteq> Pending \<and> kept w w' \<and> idb w' = idb w \<and> sent w' = sent w"
  by (auto simp: initDB_def advance_def kept_def split: if_splits)

lemma store_get_effect:
  "store_get pf key w = (r, w') \<Longrightarrow> r \<noteq> Pending \<and> kept w w' \<and> idb w' = idb w \<and> sent w' = sent w"
  by (auto simp: store_get_def advance_def kept_def split: if_splits)

lemma settle_effect:
  "settle pf tx w = (ev, w') \<Longrightarrow> kept w w' \<and> sent w' = sent w"
  by (auto simp: settle_def kept_def split: prod.splits option.splits if_splits)

lemma hasKeys_effect:
  "hasKeys pf w = (b, w') \<Longrightarrow> kept w w' \<and> idb w' = idb w \<and> sent w' = sent w"
  by (auto simp: hasKeys_def split: prod.splits promise.splits
      dest!: initDB_effect store_get_effect intro: kept_trans)

lemma getKeyFingerprint_effect:
  "getKeyFingerprint pf w = (r, w') \<Longrightarrow> r \<noteq> Pending \<and> kept w w' \<and> idb w' = idb w \<and> sent w' = sent w"
  by (auto simp: getKeyFingerprint_def await_def
      split: prod.splits promise.splits option.splits sum.splits if_splits
      dest!: initDB_effect store_get_effect intro: kept_trans)

lemma getPublicKeyJWK_effect:
  "getPublicKeyJWK pf w = (r, w') \<Longrightarrow> r \<noteq> Pending \<and> kept w w' \<and> idb w' = idb w \<and> sent w' = sent w"
  by (auto simp: getPublicKeyJWK_def await_def
      split: prod.splits promise.splits option.splits if_splits
      dest!: initDB_effect store_get_effect intro: kept_trans)

section \<open>The key store\<close>

text \<open>
  The three puts of \<open>storeKeyPair\<close> are placed in one synchronous block on a
  transaction just created, so none of them throws.
\<close>

lemma place_all_three:
  "place_all db_transaction [r1, r2, r3] = (None, \<lparr>tx_active = True, tx_requests = [r1, r2, r3]\<rparr>)"
  by (simp add: place_def db_transaction_def)

lemma settle_three:
  "settle pf \<lparr>tx_active = a, tx_requests = [Put v1 k1, Put v2 k2, Put v3 k3]\<rparr> w = (ev, w')
   \<Longrightarrow> (ev = Complete \<and> idb w' = (idb w)(k1 \<mapsto> v1, k2 \<mapsto> v2, k3 \<mapsto> v3))
       \<or> (ev \<noteq> Complete \<and> idb w' = idb w)"
  by (auto simp: settle_def split: if_splits)

lemma storeKeyPair_all_or_nothing:
  "(fst (storeKeyPair pf kp w) = Fulfilled True
      \<and> (\<exists>created. idb (snd (storeKeyPair pf kp w))
            = (idb w)(''ecdsa_private_key'' \<mapsto> exportKey_jwk (privateKey kp),
                      ''ecdsa_public_key'' \<mapsto> exportKey_jwk (publicKey kp),
                      ''key_metadata'' \<mapsto> key_metadata created
                          (generateFingerprint pf (exportKey_jwk (publicKey kp))))))
   \<or> ((\<exists>e. fst (storeKeyPair pf kp w) = Rejected e) \<and> idb (snd (storeKeyPair pf kp w)) = idb w)"
proof -
  obtain r w1 where i: "initDB pf w = (r, w1)"
    by (cases "initDB pf w")
  from initDB_effect [OF i] have np: "r \<noteq> Pending" and same: "idb w1 = idb w"
    by simp_all
  let ?tx = "\<lparr>tx_active = True, tx_requests =
        [Put (exportKey_jwk (privateKey kp)) ''ecdsa_private_key'',
         Put (exportKey_jwk (publicKey kp)) ''ecdsa_public_key'',
         Put (key_metadata (Date_toISOString pf (tick w1))
               (generateFingerprint pf (exportKey_jwk (publicKey kp)))) ''key_metadata'']\<rparr>"
  show ?thesis
  proof (cases r)
    case (Fulfilled u)
    obtain ev w3 where s: "settle pf ?tx (advance w1) = (ev, w3)"
      by (cases "settle pf ?tx (advance w1)")
    have "idb (advance w1) = idb w"
      using same by (simp add: advance_def)
    with settle_three [OF s] show ?thesis
      using i Fulfilled s
      by (cases ev) (auto simp: storeKeyPair_def Let_def place_all_three simp del: place_all.simps)
  next
    case (Rejected e)
    with i same show ?thesis
      by (simp add: storeKeyPair_def Let_def)
  next
    case Pending
    with np show ?thesis by simp
  qed
qed

text \<open>
  The second copy. Where no awaited promise settles before its task ends (the timing of
  a browser, whose \<open>exportKey\<close> settles in a later task), the first put already finds
  the transaction inactive: the call is rejected and nothing is written.
\<close>

lemma storeKeyPair_2_inactive_transaction:
  assumes "\<forall>t. \<not> settles_in_task pf t"
  shows "(\<exists>e. fst (storeKeyPair_2 pf kp w) = Rejected e) \<and> idb (snd (storeKeyPair_2 pf kp w)) = idb w"
  using assms
  by (simp add: storeKeyPair_2_def Let_def initDB_2_def place_def return_to_event_loop_def
      await_elsewhere_def db_transaction_def settle_def advance_def)

text \<open>
  Where every awaited promise settles before its task ends, the three puts are all
  placed and, on a store without faults, all written.
\<close>

lemma storeKeyPair_2_all_settled:
  "fst (storeKeyPair_2 (test_platform\<lparr>settles_in_task := (\<lambda>t. True)\<rparr>) test_keyPair empty_world)
     = Fulfilled True
   \<and> idb (snd (storeKeyPair_2 (test_platform\<lparr>settles_in_task := (\<lambda>t. True)\<rparr>)
                  test_keyPair empty_world)) ''ecdsa_private_key'' = Some test_privateKey
   \<and> idb (snd (storeKeyPair_2 (test_platform\<lparr>settles_in_task := (\<lambda>t. True)\<rparr>)
                  test_keyPair empty_world)) ''ecdsa_public_key'' = Some test_publicKey
   \<and> idb (snd (storeKeyPair_2 (test_platform\<lparr>settles_in_task := (\<lambda>t. True)\<rparr>)
                  test_keyPair empty_world)) ''key_metadata'' \<noteq> None"
  by (simp add: storeKeyPair_2_def initDB_2_def await_elsewhere_def return_to_event_loop_def
      engine_eval data_eval)

text \<open>
  C5. The claim: \<open>storeKeyPair\<close> is atomic with respect to partial writes: either all
  three records are written or none of them is observable afterwards. The first copy of
  \<open>storeKeyPair\<close> is: it exports the keys first and places its three puts in one
  synchronous block on a transaction just created, so for every key pair and every fault
  of the platform the call either fulfils with the three records in the store or is
  rejected with the store as it was. The second copy is not: it awaits between the puts,
  and where the two \<open>exportKey\<close> promises settle before the task ends and the digest
  does not, the first two puts are placed, the third throws, the call is rejected, and
  the transaction commits the private and the public key without the metadata.
\<close>

theorem storeKeyPair_2_partial_write:
  "((fst (storeKeyPair pf kp w) = Fulfilled True
       \<and> (\<exists>created. idb (snd (storeKeyPair pf kp w))
             = (idb w)(''ecdsa_private_key'' \<mapsto> exportKey_jwk (privateKey kp),
                       ''ecdsa_public_key'' \<mapsto> exportKey_jwk (publicKey kp),
                       ''key_metadata'' \<mapsto> key_metadata created
                           (generateFingerprint pf (exportKey_jwk (publicKey kp))))))
     \<or> ((\<exists>e. fst (storeKeyPair pf kp w) = Rejected e) \<and> idb (snd (storeKeyPair pf kp w)) = idb w))
   \<and> fst (storeKeyPair_2 late_digest_platform test_keyPair empty_world)
       = Rejected (Error ''Failed to store cryptographic keys'')
   \<and> idb (snd (storeKeyPair_2 late_digest_platform test_keyPair empty_world)) ''ecdsa_private_key''
       = Some test_privateKey
   \<and> idb (snd (storeKeyPair_2 late_digest_platform test_keyPair empty_world)) ''ecdsa_public_key''
       = Some test_publicKey
   \<and> idb (snd (storeKeyPair_2 late_digest_platform test_keyPair empty_world)) ''key_metadata''
       = None
   \<and> idb empty_world ''ecdsa_private_key'' = None"
proof -
  have "fst (storeKeyPair_2 late_digest_platform test_keyPair empty_world)
          = Rejected (Error ''Failed to store cryptographic keys'')
      \<and> idb (snd (storeKeyPair_2 late_digest_platform test_keyPair empty_world)) ''ecdsa_private_key''
          = Some test_privateKey
      \<and> idb (snd (storeKeyPair_2 late_digest_platform test_keyPair empty_world)) ''ecdsa_public_key''
          = Some test_publicKey
      \<and> idb (snd (storeKeyPair_2 late_digest_platform test_keyPair empty_world)) ''key_metadata''
          = None
      \<and> idb empty_world ''ecdsa_private_key'' = None"
    by (simp add: storeKeyPair_2_def initDB_2_def await_elsewhere_def return_to_event_loop_def
        engine_eval data_eval)
  with storeKeyPair_all_or_nothing [of pf kp w] show ?thesis
    by blast
qed

text \<open>
  C10. If the digest of the public key cannot be computed, \<open>generateFingerprint\<close> does
  not raise: it returns the constant \<open>unknown\<close>, for every such key alike; and when
  \<open>storeKeyPair\<close> then succeeds, the metadata record that is in the store afterwards
  has the string \<open>unknown\<close> as its \<open>fingerprint\<close> property (beside \<open>algorithm\<close>
  and \<open>curve\<close>).
\<close>

theorem generateFingerprint_unknown_stored:
  assumes "\<forall>s. stringify_sorted_keys (exportKey_jwk (publicKey kp)) = Inr s
              \<longrightarrow> subtle_digest pf (TextEncoder_encode s) = None"
  shows "generateFingerprint pf (exportKey_jwk (publicKey kp)) = ''unknown''
         \<and> (fst (storeKeyPair pf kp w) = Fulfilled True \<longrightarrow>
              (\<exists>md. idb (snd (storeKeyPair pf kp w)) ''key_metadata'' = Some md
                 \<and> get_prop md ''fingerprint'' = Inr (Some (JStr ''unknown''))
                 \<and> get_prop md ''algorithm'' = Inr (Some (JStr ''ECDSA''))
                 \<and> get_prop md ''curve'' = Inr (Some (JStr ''P-384''))
                 \<and> (\<exists>created. md = key_metadata created ''unknown'')))"
proof -
  have u: "generateFingerprint pf (exportKey_jwk (publicKey kp)) = ''unknown''"
    using assms by (simp add: generateFingerprint_def split: sum.splits)
  have p: "get_prop (key_metadata created fp) ''fingerprint'' = Inr (Some (JStr fp))
         \<and> get_prop (key_metadata created fp) ''algorithm'' = Inr (Some (JStr ''ECDSA''))
         \<and> get_prop (key_metadata created fp) ''curve'' = Inr (Some (JStr ''P-384''))"
    for created fp
    by (simp add: key_metadata_def)
  show ?thesis
    using u p storeKeyPair_all_or_nothing [of pf kp w] by auto
qed

theorem generateFingerprint_unknown_stored_witness:
  "fst (storeKeyPair no_digest_platform test_keyPair empty_world) = Fulfilled True
   \<and> generateFingerprint no_digest_platform (exportKey_jwk (publicKey test_keyPair)) = ''unknown''
   \<and> generateFingerprint no_digest_platform other_publicKey = ''unknown''
   \<and> test_publicKey \<noteq> other_publicKey
   \<and> (\<exists>md. idb (snd (storeKeyPair no_digest_platform test_keyPair empty_world)) ''key_metadata''
           = Some md
         \<and> get_prop md ''fingerprint'' = Inr (Some (JStr ''unknown''))
         \<and> get_prop md ''algorithm'' = Inr (Some (JStr ''ECDSA''))
         \<and> get_prop md ''curve'' = Inr (Some (JStr ''P-384''))
         \<and> (\<exists>created. md = key_metadata created ''unknown''))"
proof -
  have d: "\<forall>s. stringify_sorted_keys (exportKey_jwk (publicKey test_keyPair)) = Inr s
              \<longrightarrow> subtle_digest no_digest_platform (TextEncoder_encode s) = None"
    by (simp add: no_digest_platform_def)
  have f: "fst (storeKeyPair no_digest_platform test_keyPair empty_world) = Fulfilled True"
    by (simp add: engine_eval data_eval)
  have o: "generateFingerprint no_digest_platform other_publicKey = ''unknown''"
    by (simp add: generateFingerprint_def no_digest_platform_def other_publicKey_def
        stringify_sorted_keys_def)
  have n: "test_publicKey \<noteq> other_publicKey"
    by (simp add: test_publicKey_def other_publicKey_def)
  show ?thesis
    using f o n generateFingerprint_unknown_stored [OF d, of empty_world] by simp
qed

section \<open>Encryption\<close>

lemma encryptData_fulfilled:
  "encryptData pf d key w = (Fulfilled envelope, w') \<Longrightarrow>
     \<exists>aesKey t encrypted.
        (case key of Some k \<Rightarrow> aesKey = k \<and> t = tick w
                   | None \<Rightarrow> generateKey_AES pf (tick w) = Some aesKey \<and> t = tick w + 1)
      \<and> subtle_encrypt pf aesKey (getRandomValues pf t) (TextEncoder_encode (JSON_stringify d None))
          = Some encrypted
      \<and> envelope = JObj [(''encrypted'', JStr (btoa pf encrypted)),
                         (''iv'', JStr (btoa pf (getRandomValues pf t))),
                         (''key'', exportKey_jwk aesKey)]
      \<and> tick w' = t + 1"
  by (auto simp: encryptData_def generateAESKey_def try_catch_def await_def Let_def advance_def
      split: option.splits prod.splits promise.splits)

text \<open>
  C6, as amended. Called without a key, as \<open>createSecureRequest\<close> calls it,
  \<open>encryptData\<close> draws a key from the platform's key generator and a nonce from its
  random source and encrypts the serialized payload under exactly that key and that
  nonce; the envelope carries the ciphertext, the nonce and the key. Two such calls in
  sequence use four different draws (counter values \<open>t\<close>, \<open>t + 1\<close> and \<open>t + 2\<close>,
  \<open>t + 3\<close>), so their keys, hence their (key, nonce) pairs, differ whenever the
  platform's key generator never repeats itself. Called with a key, \<open>encryptData\<close>
  encrypts under the key it was given and draws only the nonce: reuse of a key is not
  excluded by construction.
\<close>

theorem encryptData_draws_fresh:
  assumes "fulfilled (encryptData pf d1 None w)"
    and "fulfilled (encryptData pf d2 None (snd (encryptData pf d1 None w)))"
    and "inj (generateKey_AES pf)"
  shows "(\<exists>k1 k2 c1 c2.
        generateKey_AES pf (tick w) = Some k1 \<and> generateKey_AES pf (tick w + 2) = Some k2
      \<and> k1 \<noteq> k2
      \<and> (k1, getRandomValues pf (tick w + 1)) \<noteq> (k2, getRandomValues pf (tick w + 3))
      \<and> subtle_encrypt pf k1 (getRandomValues pf (tick w + 1))
            (TextEncoder_encode (JSON_stringify d1 None)) = Some c1
      \<and> subtle_encrypt pf k2 (getRandomValues pf (tick w + 3))
            (TextEncoder_encode (JSON_stringify d2 None)) = Some c2
      \<and> fst (encryptData pf d1 None w)
          = Fulfilled (JObj [(''encrypted'', JStr (btoa pf c1)),
                             (''iv'', JStr (btoa pf (getRandomValues pf (tick w + 1)))),
                             (''key'', exportKey_jwk k1)])
      \<and> fst (encryptData pf d2 None (snd (encryptData pf d1 None w)))
          = Fulfilled (JObj [(''encrypted'', JStr (btoa pf c2)),
                             (''iv'', JStr (btoa pf (getRandomValues pf (tick w + 3)))),
                             (''key'', exportKey_jwk k2)]))
    \<and> (\<forall>k d w0. fulfilled (encryptData pf d (Some k) w0) \<longrightarrow>
          (\<exists>c. subtle_encrypt pf k (getRandomValues pf (tick w0))
                  (TextEncoder_encode (JSON_stringify d None)) = Some c
             \<and> fst (encryptData pf d (Some k) w0)
                 = Fulfilled (JObj [(''encrypted'', JStr (btoa pf c)),
                                    (''iv'', JStr (btoa pf (getRandomValues pf (tick w0)))),
                                    (''key'', exportKey_jwk k)])))"
proof -
  obtain e1 w1 where a: "encryptData pf d1 None w = (Fulfilled e1, w1)"
    using assms(1)
    by (cases "encryptData pf d1 None w") (auto simp: fulfilled_def split: promise.splits)
  obtain e2 w2 where b: "encryptData pf d2 None w1 = (Fulfilled e2, w2)"
    using assms(2) a
    by (cases "encryptData pf d2 None w1") (auto simp: fulfilled_def split: promise.splits)
  from encryptData_fulfilled [OF a] obtain k1 c1 where
    k1: "generateKey_AES pf (tick w) = Some k1"
    and c1: "subtle_encrypt pf k1 (getRandomValues pf (tick w + 1))
               (TextEncoder_encode (JSON_stringify d1 None)) = Some c1"
    and e1: "e1 = JObj [(''encrypted'', JStr (btoa pf c1)),
                        (''iv'', JStr (btoa pf (getRandomValues pf (tick w + 1)))),
                        (''key'', exportKey_jwk k1)]"
    and t1: "tick w1 = tick w + 2"
    by auto
  from encryptData_fulfilled [OF b] t1 obtain k2 c2 where
    k2: "generateKey_AES pf (tick w + 2) = Some k2"
    and c2: "subtle_encrypt pf k2 (getRandomValues pf (tick w + 3))
               (TextEncoder_encode (JSON_stringify d2 None)) = Some c2"
    and e2: "e2 = JObj [(''encrypted'', JStr (btoa pf c2)),
                        (''iv'', JStr (btoa pf (getRandomValues pf (tick w + 3)))),
                        (''key'', exportKey_jwk k2)]"
    by (auto simp: numeral_3_eq_3 numeral_2_eq_2)
  have ne: "k1 \<noteq> k2"
  proof
    assume "k1 = k2"
    with k1 k2 have "generateKey_AES pf (tick w) = generateKey_AES pf (tick w + 2)"
      by simp
    with assms(3) have "tick w = tick w + 2"
      by (simp add: inj_def)
    then show False by simp
  qed
  have two: "\<exists>k1 k2 c1 c2.
        generateKey_AES pf (tick w) = Some k1 \<and> generateKey_AES pf (tick w + 2) = Some k2
      \<and> k1 \<noteq> k2
      \<and> (k1, getRandomValues pf (tick w + 1)) \<noteq> (k2, getRandomValues pf (tick w + 3))
      \<and> subtle_encrypt pf k1 (getRandomValues pf (tick w + 1))
            (TextEncoder_encode (JSON_stringify d1 None)) = Some c1
      \<and> subtle_encrypt pf k2 (getRandomValues pf (tick w + 3))
            (TextEncoder_encode (JSON_stringify d2 None)) = Some c2
      \<and> fst (encryptData pf d1 None w)
          = Fulfilled (JObj [(''encrypted'', JStr (btoa pf c1)),
                             (''iv'', JStr (btoa pf (getRandomValues pf (tick w + 1)))),
                             (''key'', exportKey_jwk k1)])
      \<and> fst (encryptData pf d2 None (snd (encryptData pf d1 None w)))
          = Fulfilled (JObj [(''encrypted'', JStr (btoa pf c2)),
                             (''iv'', JStr (btoa pf (getRandomValues pf (tick w + 3)))),
                             (''key'', exportKey_jwk k2)])"
    using k1 k2 ne c1 c2 e1 e2 a b
    by (intro exI [of _ k1] exI [of _ k2] exI [of _ c1] exI [of _ c2]) simp
  have given: "\<exists>c. subtle_encrypt pf k (getRandomValues pf (tick w0))
                  (TextEncoder_encode (JSON_stringify d None)) = Some c
             \<and> fst (encryptData pf d (Some k) w0)
                 = Fulfilled (JObj [(''encrypted'', JStr (btoa pf c)),
                                    (''iv'', JStr (btoa pf (getRandomValues pf (tick w0)))),
                                    (''key'', exportKey_jwk k)])"
    if f: "fulfilled (encryptData pf d (Some k) w0)" for k d w0
  proof -
    obtain e w' where g: "encryptData pf d (Some k) w0 = (Fulfilled e, w')"
      using f
      by (cases "encryptData pf d (Some k) w0") (auto simp: fulfilled_def split: promise.splits)
    from encryptData_fulfilled [OF g] g show ?thesis
      by auto
  qed
  from two given show ?thesis
    by blast
qed

theorem encryptData_draws_fresh_witness:
  \<open>fulfilled (encryptData test_platform (JObj [(''amount'', JNum 100)]) None ready_world)
   \<and> fulfilled (encryptData test_platform (JObj [(''amount'', JNum 250)]) None
        (snd (encryptData test_platform (JObj [(''amount'', JNum 100)]) None ready_world)))
   \<and> inj (generateKey_AES test_platform)
   \<and> fulfilled (encryptData test_platform (JObj [(''amount'', JNum 100)]) (Some (JNum 7)) ready_world)
   \<and> fst (encryptData test_platform (JObj [(''amount'', JNum 100)]) None ready_world)
       = Fulfilled (JObj [(''encrypted'', JStr ''}001:"tnuoma"{''), (''iv'', JStr ''1''),
                          (''key'', JNum 0)])
   \<and> fst (encryptData test_platform (JObj [(''amount'', JNum 250)]) None
        (snd (encryptData test_platform (JObj [(''amount'', JNum 100)]) None ready_world)))
       = Fulfilled (JObj [(''encrypted'', JStr ''}052:"tnuoma"{''), (''iv'', JStr ''3''),
                          (''key'', JNum 2)])
   \<and> (\<exists>k1 k2 c1 c2.
        generateKey_AES test_platform (tick ready_world) = Some k1
      \<and> generateKey_AES test_platform (tick ready_world + 2) = Some k2
      \<and> k1 \<noteq> k2
      \<and> (k1, getRandomValues test_platform (tick ready_world + 1))
           \<noteq> (k2, getRandomValues test_platform (tick ready_world + 3))
      \<and> subtle_encrypt test_platform k1 (getRandomValues test_platform (tick ready_world + 1))
            (TextEncoder_encode (JSON_stringify (JObj [(''amount'', JNum 100)]) None)) = Some c1
      \<and> subtle_encrypt test_platform k2 (getRandomValues test_platform (tick ready_world + 3))
            (TextEncoder_encode (JSON_stringify (JObj [(''amount'', JNum 250)]) None)) = Some c2
      \<and> fst (encryptData test_platform (JObj [(''amount'', JNum 100)]) None ready_world)
          = Fulfilled (JObj [(''encrypted'', JStr (btoa test_platform c1)),
               (''iv'', JStr (btoa test_platform (getRandomValues test_platform (tick ready_world + 1)))),
               (''key'', exportKey_jwk k1)])
      \<and> fst (encryptData test_platform (JObj [(''amount'', JNum 250)]) None
            (snd (encryptData test_platform (JObj [(''amount'', JNum 100)]) None ready_world)))
          = Fulfilled (JObj [(''encrypted'', JStr (btoa test_platform c2)),
               (''iv'', JStr (btoa test_platform (getRandomValues test_platform (tick ready_world + 3)))),
               (''key'', exportKey_jwk k2)]))
   \<and> (\<exists>c. subtle_encrypt test_platform (JNum 7) (getRandomValues test_platform (tick ready_world))
              (TextEncoder_encode (JSON_stringify (JObj [(''amount'', JNum 100)]) None)) = Some c
         \<and> fst (encryptData test_platform (JObj [(''amount'', JNum 100)]) (Some (JNum 7)) ready_world)
             = Fulfilled (JObj [(''encrypted'', JStr (btoa test_platform c)),
                  (''iv'', JStr (btoa test_platform (getRandomValues test_platform (tick ready_world)))),
                  (''key'', exportKey_jwk (JNum 7))]))\<close>
proof -
  have a: "fulfilled (encryptData test_platform (JObj [(''amount'', JNum 100)]) None ready_world)"
    by (simp add: engine_eval data_eval)
  have b: "fulfilled (encryptData test_platform (JObj [(''amount'', JNum 250)]) None
        (snd (encryptData test_platform (JObj [(''amount'', JNum 100)]) None ready_world)))"
    by (simp add: engine_eval data_eval)
  have c: "inj (generateKey_AES test_platform)"
    by (simp add: test_platform_def inj_def)
  have g: "fulfilled (encryptData test_platform (JObj [(''amount'', JNum 100)]) (Some (JNum 7))
             ready_world)"
    by (simp add: engine_eval data_eval)
  have v1: \<open>fst (encryptData test_platform (JObj [(''amount'', JNum 100)]) None ready_world)
       = Fulfilled (JObj [(''encrypted'', JStr ''}001:"tnuoma"{''), (''iv'', JStr ''1''),
                          (''key'', JNum 0)])\<close>
    by (simp add: engine_eval data_eval json_eval)
  have v2: \<open>fst (encryptData test_platform (JObj [(''amount'', JNum 250)]) None
        (snd (encryptData test_platform (JObj [(''amount'', JNum 100)]) None ready_world)))
       = Fulfilled (JObj [(''encrypted'', JStr ''}052:"tnuoma"{''), (''iv'', JStr ''3''),
                          (''key'', JNum 2)])\<close>
    by (simp add: engine_eval data_eval json_eval)
  from encryptData_draws_fresh [OF a b c] have
    two: "\<exists>k1 k2 c1 c2.
        generateKey_AES test_platform (tick ready_world) = Some k1
      \<and> generateKey_AES test_platform (tick ready_world + 2) = Some k2
      \<and> k1 \<noteq> k2
      \<and> (k1, getRandomValues test_platform (tick ready_world + 1))
           \<noteq> (k2, getRandomValues test_platform (tick ready_world + 3))
      \<and> subtle_encrypt test_platform k1 (getRandomValues test_platform (tick ready_world + 1))
            (TextEncoder_encode (JSON_stringify (JObj [(''amount'', JNum 100)]) None)) = Some c1
      \<and> subtle_encrypt test_platform k2 (getRandomValues test_platform (tick ready_world + 3))
            (TextEncoder_encode (JSON_stringify (JObj [(''amount'', JNum 250)]) None)) = Some c2
      \<and> fst (encryptData test_platform (JObj [(''amount'', JNum 100)]) None ready_world)
          = Fulfilled (JObj [(''encrypted'', JStr (btoa test_platform c1)),
               (''iv'', JStr (btoa test_platform (getRandomValues test_platform (tick ready_world + 1)))),
               (''key'', exportKey_jwk k1)])
      \<and> fst (encryptData test_platform (JObj [(''amount'', JNum 250)]) None
            (snd (encryptData test_platform (JObj [(''amount'', JNum 100)]) None ready_world)))
          = Fulfilled (JObj [(''encrypted'', JStr (btoa test_platform c2)),
               (''iv'', JStr (btoa test_platform (getRandomValues test_platform (tick ready_world + 3)))),
               (''key'', exportKey_jwk k2)])"
    and given: "\<forall>k d w0. fulfilled (encryptData test_platform d (Some k) w0) \<longrightarrow>
          (\<exists>c. subtle_encrypt test_platform k (getRandomValues test_platform (tick w0))
                  (TextEncoder_encode (JSON_stringify d None)) = Some c
             \<and> fst (encryptData test_platform d (Some k) w0)
                 = Fulfilled (JObj [(''encrypted'', JStr (btoa test_platform c)),
                                    (''iv'', JStr (btoa test_platform (getRandomValues test_platform (tick w0)))),
                                    (''key'', exportKey_jwk k)]))"
    by blast+
  from given g have
    "\<exists>c. subtle_encrypt test_platform (JNum 7) (getRandomValues test_platform (tick ready_world))
              (TextEncoder_encode (JSON_stringify (JObj [(''amount'', JNum 100)]) None)) = Some c
         \<and> fst (encryptData test_platform (JObj [(''amount'', JNum 100)]) (Some (JNum 7)) ready_world)
             = Fulfilled (JObj [(''encrypted'', JStr (btoa test_platform c)),
                  (''iv'', JStr (btoa test_platform (getRandomValues test_platform (tick ready_world)))),
                  (''key'', exportKey_jwk (JNum 7))])"
    by blast
  with a b c g v1 v2 two show ?thesis
    by blast
qed

text \<open>
  The claim's ``there is no way to invoke encrypt so that it encrypts under a previously
  used key'' fails: \<open>encryptData\<close> has an optional key parameter, and two calls that
  pass the same key both encrypt under it, as the \<open>key\<close> member of both envelopes
  shows (on the test platform the ciphertext is the reversed plaintext and base64 is the
  identity).
\<close>

theorem encryptData_key_reuse:
  \<open>fst (encryptData test_platform (JObj [(''amount'', JNum 100)]) (Some (JNum 7)) ready_world)
     = Fulfilled (JObj [(''encrypted'', JStr ''}001:"tnuoma"{''), (''iv'', JStr ''0''),
                        (''key'', JNum 7)])
   \<and> fst (encryptData test_platform (JObj [(''amount'', JNum 250)]) (Some (JNum 7))
        (snd (encryptData test_platform (JObj [(''amount'', JNum 100)]) (Some (JNum 7)) ready_world)))
     = Fulfilled (JObj [(''encrypted'', JStr ''}052:"tnuoma"{''), (''iv'', JStr ''1''),
                        (''key'', JNum 7)])\<close>
  by (simp add: engine_eval data_eval json_eval)

section \<open>The session\<close>

lemma fetch_effect:
  "fetch pf req w = (r, w') \<Longrightarrow>
     r \<noteq> Pending \<and> kept w w' \<and> idb w' = idb w \<and> (sent w' = sent w \<or> sent w' = sent w @ [req])"
  by (auto simp: fetch_def advance_def kept_def Let_def split: if_splits option.splits)


lemma response_json_effect:
  "response_json res w = (r, w') \<Longrightarrow> r \<noteq> Pending \<and> w' = w"
  by (auto simp: response_json_def split: option.splits)

text \<open>\<open>verifyCryptoStatus\<close> swallows every failure: it always fulfils.\<close>

lemma verifyCryptoStatus_effect:
  "verifyCryptoStatus pf w = (r, w') \<Longrightarrow>
     (\<exists>x. r = Fulfilled x) \<and> kept w w' \<and> idb w' = idb w \<and> length (sent w') \<le> length (sent w) + 1"
  apply (simp add: verifyCryptoStatus_def try_catch_def await_def
      split: prod.splits promise.splits if_splits)
  apply (auto dest!: getKeyFingerprint_effect fetch_effect response_json_effect intro: kept_trans)
  done

lemma storeKeyPair_effect:
  "storeKeyPair pf kp w = (r, w') \<Longrightarrow> r \<noteq> Pending \<and> kept w w' \<and> sent w' = sent w"
  apply (simp add: storeKeyPair_def Let_def place_all_three del: place_all.simps
      split: prod.splits promise.splits tx_event.splits)
  apply (auto dest!: initDB_effect settle_effect simp: advance_def kept_def)
  done

lemma generateKeyPair_effect:
  "generateKeyPair pf w = (r, w') \<Longrightarrow>
     r \<noteq> Pending \<and> keygens w' = keygens w + 1 \<and> isInitialized w' = isInitialized w
     \<and> localStorage w' = localStorage w \<and> sessionStorage w' = sessionStorage w \<and> sent w' = sent w"
  apply (simp add: generateKeyPair_def try_catch_def await_def Let_def
      split: prod.splits promise.splits option.splits)
  apply (auto dest!: storeKeyPair_effect simp: advance_def kept_def)
  done

lemma registerPublicKey_effect:
  "registerPublicKey pf w = (r, w') \<Longrightarrow>
     r \<noteq> Pending \<and> kept w w' \<and> idb w' = idb w \<and> length (sent w') \<le> length (sent w) + 1"
  apply (simp add: registerPublicKey_def await_def
      split: prod.splits promise.splits if_splits sum.splits)
  apply (auto dest!: getPublicKeyJWK_effect getKeyFingerprint_effect fetch_effect response_json_effect
      intro: kept_trans)
  done

lemma initializeSession_fulfilled:
  "initializeSession pf w = (Fulfilled b, w') \<Longrightarrow> b \<and> isInitialized w'"
  by (auto simp: initializeSession_def await_def split: if_splits prod.splits promise.splits)

lemma initializeSession_effect:
  "initializeSession pf w = (r, w') \<Longrightarrow>
     r \<noteq> Pending \<and> keygens w' \<le> keygens w + 1 \<and> length (sent w') \<le> length (sent w) + 1
     \<and> localStorage w' = localStorage w \<and> sessionStorage w' = sessionStorage w"
  apply (simp add: initializeSession_def await_def split: if_splits prod.splits promise.splits)
  apply (auto dest!: hasKeys_effect generateKeyPair_effect registerPublicKey_effect
      verifyCryptoStatus_effect simp: kept_def)
  done







text \<open>
  C8, as amended. Once a call of \<open>initializeSession\<close> has succeeded, the next call
  returns \<open>true\<close> at once and changes nothing, whatever the platform would answer:
  no key is generated and no request is sent. The successful call itself generates at
  most one key pair and sends at most one request. (After a failed call the session is
  still uninitialized, and the next call starts over.)
\<close>

theorem initializeSession_idempotent_after_success:
  assumes "fulfilled (initializeSession pf w)"
  shows "initializeSession pf' (snd (initializeSession pf w))
           = (Fulfilled True, snd (initializeSession pf w))
         \<and> fst (initializeSession pf w) = Fulfilled True
         \<and> keygens (snd (initializeSession pf w)) \<le> keygens w + 1
         \<and> length (sent (snd (initializeSession pf w))) \<le> length (sent w) + 1"
proof -
  obtain r w' where eq: "initializeSession pf w = (r, w')"
    by (cases "initializeSession pf w")
  with assms obtain b where r: "r = Fulfilled b"
    by (cases r) (simp_all add: fulfilled_def)
  from initializeSession_fulfilled [of pf w b w'] eq r have "b" and "isInitialized w'"
    by simp_all
  moreover from initializeSession_effect [OF eq]
  have "keygens w' \<le> keygens w + 1" and "length (sent w') \<le> length (sent w) + 1"
    by simp_all
  ultimately show ?thesis
    using eq r by (simp add: initializeSession_def)
qed

theorem initializeSession_idempotent_after_success_witness:
  "fulfilled (initializeSession test_platform empty_world)
   \<and> initializeSession no_commit_platform (snd (initializeSession test_platform empty_world))
       = (Fulfilled True, snd (initializeSession test_platform empty_world))
   \<and> keygens (snd (initializeSession test_platform empty_world)) \<le> keygens empty_world + 1
   \<and> length (sent (snd (initializeSession test_platform empty_world))) \<le> length (sent empty_world) + 1"
proof -
  have h: "fulfilled (initializeSession test_platform empty_world)"
    by (simp add: client_eval engine_eval data_eval json_eval)
  show ?thesis
    using h initializeSession_idempotent_after_success [OF h, of no_commit_platform] by simp
qed

text \<open>
  The claim's ``for every reachable state ... key generation at most once'' fails when
  the first call fails: on a platform whose store cannot commit, each of two calls in
  sequence generates a key pair and is rejected.
\<close>

theorem initializeSession_regenerates_after_failure:
  "keygens (snd (initializeSession no_commit_platform
      (snd (initializeSession no_commit_platform empty_world)))) = 2
   \<and> fst (initializeSession no_commit_platform empty_world)
       = Rejected (Error ''Failed to generate cryptographic keys'')
   \<and> fst (initializeSession no_commit_platform
      (snd (initializeSession no_commit_platform empty_world)))
       = Rejected (Error ''Failed to generate cryptographic keys'')"
  by (simp add: client_eval engine_eval data_eval)

section \<open>The secure request\<close>



lemma add_auth_token_body [simp]:
  "req_body (add_auth_token w req) = req_body req"
  by (simp add: add_auth_token_def split: option.splits)






text \<open>
  C1. The claim: for an operation that is both sign-required and encrypt-required, the
  transmitted payload is the encrypted envelope, and no plaintext payload remains in the
  transmitted body. The code spreads the whole request payload into the object it sends:
  for \<open>/transactions/\<close> and the payload \<open>{"amount": 100}\<close> the body carries the
  envelope under \<open>encrypted_data\<close> and, beside it, the plaintext under \<open>data\<close>.
  (On the test platform the signature is the bytes that were signed, the ciphertext the
  reversed plaintext.)
\<close>

theorem createSecureRequest_keeps_plaintext:
  \<open>shouldSign ''/transactions/'' \<and> shouldEncrypt ''/transactions/''
   \<and> req_body (last (sent (snd (createSecureRequest test_platform ''/transactions/'' ''POST''
       (JObj [(''amount'', JNum 100)]) no_options ready_world))))
   = Some (JSON_stringify
       (JObj [(''endpoint'', JStr ''/transactions/''), (''method'', JStr ''POST''),
              (''data'', JObj [(''amount'', JNum 100)]),
              (''timestamp'', JStr ''2025-01-01T00:00:00.000Z''),
              (''request_id'', JStr ''req_1735689600000_4fzyo82mv''),
              (''signature'', JStr ''{"data":{},"endpoint":"/transactions/","method":"POST","request_id":"req_1735689600000_4fzyo82mv","timestamp":"2025-01-01T00:00:00.000Z"}''),
              (''public_key_fingerprint'', JStr ''0123456789abcdef''),
              (''encrypted_data'',
                 JObj [(''encrypted'', JStr ''}001:"tnuoma"{''), (''iv'', JStr ''7''),
                       (''key'', JNum 6)])]) None)
   \<and> String_includes
        (the (req_body (last (sent (snd (createSecureRequest test_platform ''/transactions/'' ''POST''
           (JObj [(''amount'', JNum 100)]) no_options ready_world))))))
        ''"data":{"amount":100}''\<close>
  by (simp add: client_eval engine_eval data_eval json_eval)

text \<open>
  C9. The claim: a GET request through the secure client carries no body, and its
  headers (request identifier, timestamp, signature, fingerprint) carry the security
  material. The body is indeed absent. But \<open>createSecureRequest\<close> spreads \<open>options\<close>
  over the request options after it has built the headers, so a \<open>headers\<close> member of
  \<open>options\<close>, even an empty one, replaces them all: \<open>get\<close> with the options
  \<open>{headers: {}}\<close> sends one GET request without body and without any header. With no
  options the six headers are there.
\<close>

theorem get_with_headers_option_sends_no_security_headers:
  "shouldSign ''/accounts/''
   \<and> map req_method (sent (snd (get test_platform ''/accounts/'' headers_only_options ready_world)))
       = [''GET'']
   \<and> map req_body (sent (snd (get test_platform ''/accounts/'' headers_only_options ready_world)))
       = [None]
   \<and> map req_headers (sent (snd (get test_platform ''/accounts/'' headers_only_options ready_world)))
       = [[]]
   \<and> map (map fst \<circ> req_headers) (sent (snd (get test_platform ''/accounts/'' no_options ready_world)))
       = [[''Content-Type'', ''X-Secure-Cipher'', ''X-Request-ID'', ''X-Timestamp'',
           ''X-Signature'', ''X-Fingerprint'']]"
  by (simp add: client_eval engine_eval data_eval json_eval)

end
